theory Spec2Isabelle
  imports Complex_Main
begin

section \<open>Common conventions\<close>

text \<open>
  The two files verified here are \<^verbatim>\<open>src/cpp/dp_type_erasure.cpp\<close> and
  \<^verbatim>\<open>src/pattern/dp_type_erasure_optimized.cpp\<close>.

  Console output: a statement \<^verbatim>\<open>std::cout << a << b << std::endl\<close> appends the
  operands, in order, to the stream. The stream is a list of tokens; numbers are kept as
  numbers (how a \<^verbatim>\<open>double\<close> is rendered as text is not modelled, the values are only
  stored and printed, never computed with).
\<close>

datatype token = Str string | Dbl real | Num int | Endl

type_synonym ostream = "token list"

text \<open>
  Undefined behaviour of the C++ program is an error value, so that every path of the
  source that dereferences a null \<^verbatim>\<open>unique_ptr\<close>, follows a dangling reference or
  overflows a signed \<^verbatim>\<open>int\<close> is a branch of the model.
\<close>

datatype error = NullDeref | Dangling | SignedOverflow

text \<open>The C++ type \<^verbatim>\<open>int\<close> is 32 bits wide; signed overflow is undefined.\<close>

definition in_int_range :: "int \<Rightarrow> bool" where
  "in_int_range n \<longleftrightarrow> - (2 ^ 31) \<le> n \<and> n < 2 ^ 31"

definition int_result :: "int \<Rightarrow> error + int" where
  "int_result n = (if in_int_range n then Inr n else Inl SignedOverflow)"


section \<open>\<^verbatim>\<open>dp_type_erasure_optimized.cpp\<close>: the classes that are erased\<close>

text \<open>
  \<^verbatim>\<open>
  class Calculator {
      explicit Calculator(int multiplier) : multiplier_(multiplier) {}
      void print() const { std::cout << "Calculator with multiplier: " << multiplier_ << std::endl; }
      int calculate(int value) const { return value * multiplier_; }
      int multiplier_;
  };
  \<close>
  \<^verbatim>\<open>Adder\<close> (\<^verbatim>\<open>value + addend_\<close>) and \<^verbatim>\<open>Multiplier\<close> (\<^verbatim>\<open>value * factor_\<close>) have the same
  shape.
\<close>

datatype Calculator = Calculator (multiplier: int)

definition Calculator_print :: "Calculator \<Rightarrow> ostream" where
  "Calculator_print c = [Str ''Calculator with multiplier: '', Num (multiplier c), Endl]"

definition Calculator_calculate :: "Calculator \<Rightarrow> int \<Rightarrow> error + int" where
  "Calculator_calculate c v = int_result (v * multiplier c)"

datatype Adder = Adder (addend: int)

definition Adder_print :: "Adder \<Rightarrow> ostream" where
  "Adder_print a = [Str ''Adder with addend: '', Num (addend a), Endl]"

definition Adder_calculate :: "Adder \<Rightarrow> int \<Rightarrow> error + int" where
  "Adder_calculate a v = int_result (v + addend a)"

datatype Multiplier = Multiplier (factor: int)

definition Multiplier_print :: "Multiplier \<Rightarrow> ostream" where
  "Multiplier_print a = [Str ''Multiplier with factor: '', Num (factor a), Endl]"

definition Multiplier_calculate :: "Multiplier \<Rightarrow> int \<Rightarrow> error + int" where
  "Multiplier_calculate a v = int_result (v * factor a)"


section \<open>\<^verbatim>\<open>ModernTypeEraser\<close>\<close>

text \<open>
  The constructor is a template over the wrapped type \<^verbatim>\<open>T\<close>. What the template uses of
  \<^verbatim>\<open>T\<close> is collected in a record: the two member functions the lambdas call, the name
  \<^verbatim>\<open>typeid(T).name()\<close>, and the move constructor. A move constructor builds the new object
  with the value its source had and may leave the source changed; \<open>T_moved_from v\<close> is
  the state of a source that held \<open>v\<close>, after the move. For a class whose members are
  \<^verbatim>\<open>int\<close>s (all three classes of the file) the implicit move constructor copies, and the
  source keeps its value. The copy constructor of \<^verbatim>\<open>T\<close> yields an equal value and leaves
  its source alone.
\<close>

record 'a T_ops =
  T_print :: "'a \<Rightarrow> ostream"
  T_calculate :: "'a \<Rightarrow> int \<Rightarrow> error + int"
  T_moved_from :: "'a \<Rightarrow> 'a"
  T_name :: string

definition Calculator_ops :: "Calculator T_ops" where
  "Calculator_ops = \<lparr>T_print = Calculator_print, T_calculate = Calculator_calculate,
     T_moved_from = (\<lambda>c. c), T_name = ''Calculator''\<rparr>"

definition Adder_ops :: "Adder T_ops" where
  "Adder_ops = \<lparr>T_print = Adder_print, T_calculate = Adder_calculate,
     T_moved_from = (\<lambda>c. c), T_name = ''Adder''\<rparr>"

definition Multiplier_ops :: "Multiplier T_ops" where
  "Multiplier_ops = \<lparr>T_print = Multiplier_print, T_calculate = Multiplier_calculate,
     T_moved_from = (\<lambda>c. c), T_name = ''Multiplier''\<rparr>"

text \<open>
  A \<^verbatim>\<open>std::function\<close> member is either empty or holds a closure object. Each of the three
  lambdas of the constructor has one capture, \<^verbatim>\<open>value\<close>, and a body fixed by \<^verbatim>\<open>T\<close>; a
  closure is therefore the pair of the instantiation (\<open>lambda_T\<close>) and the captured
  object (\<open>captured\<close>). The members keep the source's names without the trailing
  underscore.
\<close>

datatype 'a lambda = Lambda (lambda_T: "'a T_ops") (captured: 'a)

record 'a ModernTypeEraser =
  printFunc :: "'a lambda option"
  calculateFunc :: "'a lambda option"
  cloneFunc :: "'a lambda option"
  typeName :: string

text \<open>\<^verbatim>\<open>ModernTypeEraser() = default;\<close>: three empty functions and an empty string.\<close>

definition ModernTypeEraser_default :: "'a ModernTypeEraser" where
  "ModernTypeEraser_default =
     \<lparr>printFunc = None, calculateFunc = None, cloneFunc = None, typeName = []\<rparr>"

text \<open>
  \<^verbatim>\<open>
  template<typename T>
  ModernTypeEraser(T value)
      : printFunc_([value = std::move(value)]() { value.print(); })
      , calculateFunc_([value = std::move(value)](int x) { return value.calculate(x); })
      , cloneFunc_([value = std::move(value)]() mutable { return ModernTypeEraser(std::move(value)); })
      , typeName_(typeid(T).name()) {}
  \<close>
  The members are initialised in this order. Each init-capture move-constructs the
  closure's \<^verbatim>\<open>value\<close> from the parameter \<^verbatim>\<open>value\<close>, so the second capture is built from
  a parameter that has been moved from once, and the third from one moved from twice.
\<close>

definition ModernTypeEraser_ctor :: "'a T_ops \<Rightarrow> 'a \<Rightarrow> 'a ModernTypeEraser" where
  "ModernTypeEraser_ctor T v =
     (let v1 = T_moved_from T v;
          v2 = T_moved_from T v1
      in \<lparr>printFunc = Some (Lambda T v),
          calculateFunc = Some (Lambda T v1),
          cloneFunc = Some (Lambda T v2),
          typeName = T_name T\<rparr>)"

text \<open>
  The copy constructor and the copy assignment copy the four members; a copied
  \<^verbatim>\<open>std::function\<close> holds a copy of the closure, with its own captured object.
\<close>

definition ModernTypeEraser_copy_ctor :: "'a ModernTypeEraser \<Rightarrow> 'a ModernTypeEraser" where
  "ModernTypeEraser_copy_ctor other =
     \<lparr>printFunc = printFunc other, calculateFunc = calculateFunc other,
      cloneFunc = cloneFunc other, typeName = typeName other\<rparr>"

text \<open>
  \<^verbatim>\<open>ModernTypeEraser(ModernTypeEraser&&) = default;\<close> and
  \<^verbatim>\<open>ModernTypeEraser& operator=(ModernTypeEraser&&) = default;\<close> move member by member, with
  the move operations of \<^verbatim>\<open>std::function\<close> and \<^verbatim>\<open>std::string\<close>. Those belong to the standard
  library, not to the program: the destination receives the target (the value) of the
  source, and the source is left in a valid state that the standard does not specify.
  What a library leaves behind is a parameter of the model: \<open>function_after_move L f\<close>
  is the content of a \<^verbatim>\<open>std::function\<close> that held \<open>f\<close>, after it was moved from, and
  \<open>string_after_move L s\<close> that of a string.
\<close>

record 'a library =
  function_after_move :: "'a lambda option \<Rightarrow> 'a lambda option"
  string_after_move :: "string \<Rightarrow> string"

text \<open>
  libstdc++ is one such library: its \<^verbatim>\<open>function(function&&)\<close> takes the target over and
  leaves the source without one, and a moved-from string is empty.
\<close>

definition libstdcxx :: "'a library" where
  "libstdcxx = \<lparr>function_after_move = (\<lambda>f. None), string_after_move = (\<lambda>s. [])\<rparr>"

text \<open>
  The result of the move constructor is the pair of the new object and the source after
  the move.
\<close>

definition ModernTypeEraser_move_ctor ::
  "'a library \<Rightarrow> 'a ModernTypeEraser \<Rightarrow> 'a ModernTypeEraser \<times> 'a ModernTypeEraser" where
  "ModernTypeEraser_move_ctor L other =
     (\<lparr>printFunc = printFunc other, calculateFunc = calculateFunc other,
       cloneFunc = cloneFunc other, typeName = typeName other\<rparr>,
      \<lparr>printFunc = function_after_move L (printFunc other),
       calculateFunc = function_after_move L (calculateFunc other),
       cloneFunc = function_after_move L (cloneFunc other),
       typeName = string_after_move L (typeName other)\<rparr>)"

text \<open>
  The move assignment, for two distinct objects: this object takes the members of the
  source, what it held before is destroyed, and the source is left as by the move
  constructor. The result is the pair of this object and the source afterwards.
\<close>

definition ModernTypeEraser_move_assign ::
  "'a library \<Rightarrow> 'a ModernTypeEraser \<Rightarrow> 'a ModernTypeEraser
     \<Rightarrow> 'a ModernTypeEraser \<times> 'a ModernTypeEraser" where
  "ModernTypeEraser_move_assign L this other =
     (this\<lparr>printFunc := printFunc other, calculateFunc := calculateFunc other,
           cloneFunc := cloneFunc other, typeName := typeName other\<rparr>,
      \<lparr>printFunc = function_after_move L (printFunc other),
       calculateFunc = function_after_move L (calculateFunc other),
       cloneFunc = function_after_move L (cloneFunc other),
       typeName = string_after_move L (typeName other)\<rparr>)"

text \<open>
  \<^verbatim>\<open>
  void print() const { if (printFunc_) { printFunc_(); } }
  int calculate(int value) const { if (calculateFunc_) { return calculateFunc_(value); } return 0; }
  bool isValid() const { return printFunc_ && calculateFunc_; }
  const std::string& getTypeName() const { return typeName_; }
  \<close>
  \<open>ModernTypeEraser_print\<close> is what the call writes to \<^verbatim>\<open>std::cout\<close>.
\<close>

definition ModernTypeEraser_print :: "'a ModernTypeEraser \<Rightarrow> ostream" where
  "ModernTypeEraser_print e =
     (case printFunc e of
        Some f \<Rightarrow> T_print (lambda_T f) (captured f)
      | None \<Rightarrow> [])"

definition ModernTypeEraser_calculate :: "'a ModernTypeEraser \<Rightarrow> int \<Rightarrow> error + int" where
  "ModernTypeEraser_calculate e x =
     (case calculateFunc e of
        Some f \<Rightarrow> T_calculate (lambda_T f) (captured f) x
      | None \<Rightarrow> Inr 0)"

definition ModernTypeEraser_isValid :: "'a ModernTypeEraser \<Rightarrow> bool" where
  "ModernTypeEraser_isValid e \<longleftrightarrow> printFunc e \<noteq> None \<and> calculateFunc e \<noteq> None"

definition ModernTypeEraser_getTypeName :: "'a ModernTypeEraser \<Rightarrow> string" where
  "ModernTypeEraser_getTypeName e = typeName e"

text \<open>
  \<^verbatim>\<open>
  ModernTypeEraser clone() const { if (cloneFunc_) { return cloneFunc_(); } return ModernTypeEraser{}; }
  \<close>
  The closure of \<^verbatim>\<open>cloneFunc_\<close> is \<^verbatim>\<open>mutable\<close>: its body moves the captured object into
  the parameter of the template constructor, so the call changes the captured object of
  this eraser. The result is the pair of the returned eraser and this eraser afterwards.
\<close>

definition ModernTypeEraser_clone ::
  "'a ModernTypeEraser \<Rightarrow> 'a ModernTypeEraser \<times> 'a ModernTypeEraser" where
  "ModernTypeEraser_clone e =
     (case cloneFunc e of
        Some f \<Rightarrow>
          (ModernTypeEraser_ctor (lambda_T f) (captured f),
           e\<lparr>cloneFunc := Some (Lambda (lambda_T f) (T_moved_from (lambda_T f) (captured f)))\<rparr>)
      | None \<Rightarrow> (ModernTypeEraser_default, e))"


section \<open>\<^verbatim>\<open>FunctionTypeEraser\<close>\<close>

text \<open>
  \<^verbatim>\<open>
  template<typename T>
  FunctionTypeEraser(T value)
      : printFunc_([value = std::move(value)]() { value.print(); })
      , calculateFunc_([value = std::move(value)](int x) { return value.calculate(x); })
      , typeFunc_([value = std::move(value)]() { return typeid(value).name(); }) {}
  void print() const { if (printFunc_) printFunc_(); }
  int calculate(int value) const { return calculateFunc_ ? calculateFunc_(value) : 0; }
  std::string getTypeName() const { return typeFunc_ ? typeFunc_() : "Unknown"; }
  \<close>
  The class declares no other constructor; its copy and move constructors are the
  implicit ones. The implicit move constructor moves the three functions, with the
  library's move constructor of \<^verbatim>\<open>std::function\<close>.
\<close>

record 'a FunctionTypeEraser =
  fn_printFunc :: "'a lambda option"
  fn_calculateFunc :: "'a lambda option"
  fn_typeFunc :: "'a lambda option"

definition FunctionTypeEraser_ctor :: "'a T_ops \<Rightarrow> 'a \<Rightarrow> 'a FunctionTypeEraser" where
  "FunctionTypeEraser_ctor T v =
     (let v1 = T_moved_from T v;
          v2 = T_moved_from T v1
      in \<lparr>fn_printFunc = Some (Lambda T v),
          fn_calculateFunc = Some (Lambda T v1),
          fn_typeFunc = Some (Lambda T v2)\<rparr>)"

definition FunctionTypeEraser_move_ctor ::
  "'a library \<Rightarrow> 'a FunctionTypeEraser \<Rightarrow> 'a FunctionTypeEraser \<times> 'a FunctionTypeEraser" where
  "FunctionTypeEraser_move_ctor L other =
     (\<lparr>fn_printFunc = fn_printFunc other, fn_calculateFunc = fn_calculateFunc other,
       fn_typeFunc = fn_typeFunc other\<rparr>,
      \<lparr>fn_printFunc = function_after_move L (fn_printFunc other),
       fn_calculateFunc = function_after_move L (fn_calculateFunc other),
       fn_typeFunc = function_after_move L (fn_typeFunc other)\<rparr>)"

definition FunctionTypeEraser_print :: "'a FunctionTypeEraser \<Rightarrow> ostream" where
  "FunctionTypeEraser_print e =
     (case fn_printFunc e of
        Some f \<Rightarrow> T_print (lambda_T f) (captured f)
      | None \<Rightarrow> [])"

definition FunctionTypeEraser_calculate :: "'a FunctionTypeEraser \<Rightarrow> int \<Rightarrow> error + int" where
  "FunctionTypeEraser_calculate e x =
     (case fn_calculateFunc e of
        Some f \<Rightarrow> T_calculate (lambda_T f) (captured f) x
      | None \<Rightarrow> Inr 0)"

definition FunctionTypeEraser_getTypeName :: "'a FunctionTypeEraser \<Rightarrow> string" where
  "FunctionTypeEraser_getTypeName e =
     (case fn_typeFunc e of
        Some f \<Rightarrow> T_name (lambda_T f)
      | None \<Rightarrow> ''Unknown'')"


section \<open>\<^verbatim>\<open>OperationWrapper\<close> and \<^verbatim>\<open>TypeErasureContainer\<close>\<close>

text \<open>
  \<^verbatim>\<open>
  class PrintOperation { explicit PrintOperation(std::string message);
      void execute() { std::cout << "Printing: " << message_ << std::endl; } ... };
  class MathOperation { explicit MathOperation(int value);
      void execute() { std::cout << "Calculating with value: " << value_ << std::endl; } ... };
  \<close>
\<close>

datatype PrintOperation = PrintOperation string

datatype MathOperation = MathOperation int

fun PrintOperation_execute :: "PrintOperation \<Rightarrow> ostream \<Rightarrow> PrintOperation \<times> ostream" where
  "PrintOperation_execute (PrintOperation message) cout =
     (PrintOperation message, cout @ [Str ''Printing: '', Str message, Endl])"

fun MathOperation_execute :: "MathOperation \<Rightarrow> ostream \<Rightarrow> MathOperation \<times> ostream" where
  "MathOperation_execute (MathOperation v) cout =
     (MathOperation v, cout @ [Str ''Calculating with value: '', Num v, Endl])"

datatype operation = A_PrintOperation PrintOperation | A_MathOperation MathOperation

fun operation_execute :: "operation \<Rightarrow> ostream \<Rightarrow> operation \<times> ostream" where
  "operation_execute (A_PrintOperation p) cout =
     (let (p', cout') = PrintOperation_execute p cout in (A_PrintOperation p', cout'))"
| "operation_execute (A_MathOperation c) cout =
     (let (c', cout') = MathOperation_execute c cout in (A_MathOperation c', cout'))"

text \<open>
  \<^verbatim>\<open>
  template<typename T> class OperationWrapper : public IOperation {
      explicit OperationWrapper(T operation) : operation_(std::move(operation)) {}
      void execute() override { operation_.execute(); }
      T operation_;
  };
  class TypeErasureContainer {
      template<typename T> void add(T value) {
          operations_.push_back(std::make_unique<OperationWrapper<T>>(std::move(value))); }
      void executeAll() { for (const auto& op : operations_) { op->execute(); } }
      size_t size() const { return operations_.size(); }
      void clear() { operations_.clear(); }
      std::vector<std::unique_ptr<IOperation>> operations_;
  };
  \<close>
  \<^verbatim>\<open>add\<close> takes its argument by value, so the wrapper always holds an object of its own.
  Each element of the vector is a non-null \<^verbatim>\<open>unique_ptr\<close> that alone owns its wrapper, and
  the class hands no pointer out; the vector is therefore the list of the wrappers
  themselves. \<^verbatim>\<open>execute\<close> is not \<^verbatim>\<open>const\<close>: the member \<^verbatim>\<open>execute\<close> of the wrapped class,
  \<open>T_execute\<close>, takes the object and the state outside it that it can touch (such as
  \<^verbatim>\<open>std::cout\<close>) and returns both as it leaves them.
\<close>

datatype 'a OperationWrapper = OperationWrapper (operation: 'a)

definition OperationWrapper_execute ::
  "('a \<Rightarrow> 'w \<Rightarrow> 'a \<times> 'w) \<Rightarrow> 'a OperationWrapper \<Rightarrow> 'w \<Rightarrow> 'a OperationWrapper \<times> 'w" where
  "OperationWrapper_execute T_execute this w =
     (let (v, w') = T_execute (operation this) w in (OperationWrapper v, w'))"

record 'a TypeErasureContainer =
  operations :: "'a OperationWrapper list"

definition TypeErasureContainer_new :: "'a TypeErasureContainer" where
  "TypeErasureContainer_new = \<lparr>operations = []\<rparr>"

definition add :: "'a \<Rightarrow> 'a TypeErasureContainer \<Rightarrow> 'a TypeErasureContainer" where
  "add v this = this\<lparr>operations := operations this @ [OperationWrapper v]\<rparr>"

fun execute_each ::
  "('a \<Rightarrow> 'w \<Rightarrow> 'a \<times> 'w) \<Rightarrow> 'a OperationWrapper list \<Rightarrow> 'w \<Rightarrow> 'a OperationWrapper list \<times> 'w"
where
  "execute_each T_execute [] w = ([], w)"
| "execute_each T_execute (op # rest) w =
     (let (op', w1) = OperationWrapper_execute T_execute op w;
          (rest', w2) = execute_each T_execute rest w1
      in (op' # rest', w2))"

definition executeAll ::
  "('a \<Rightarrow> 'w \<Rightarrow> 'a \<times> 'w) \<Rightarrow> 'a TypeErasureContainer \<Rightarrow> 'w \<Rightarrow> 'a TypeErasureContainer \<times> 'w" where
  "executeAll T_execute this w =
     (let (ops, w') = execute_each T_execute (operations this) w
      in (this\<lparr>operations := ops\<rparr>, w'))"

definition size_of :: "'a TypeErasureContainer \<Rightarrow> nat" where
  "size_of this = length (operations this)"

definition clear :: "'a TypeErasureContainer \<Rightarrow> 'a TypeErasureContainer" where
  "clear this = this\<lparr>operations := []\<rparr>"


section \<open>\<^verbatim>\<open>dp_type_erasure.cpp\<close>: the classes that are erased\<close>

text \<open>
  \<^verbatim>\<open>
  class Circle    { Circle(double radius); void draw() const; double radius; };
  class Rectangle { Rectangle(double width, double height); void draw() const; double width, height; };
  class Triangle  { Triangle(double base, double height); void draw() const; double base, height; };
  \<close>
  The three classes share no base class. \<open>Circle_draw\<close> is what \<^verbatim>\<open>Circle::draw\<close> writes:
  \<^verbatim>\<open>std::cout << "Drawing circle with radius: " << radius << std::endl;\<close>
\<close>

datatype Circle = Circle real

datatype Rectangle = Rectangle real real

datatype Triangle = Triangle real real

fun Circle_draw :: "Circle \<Rightarrow> ostream" where
  "Circle_draw (Circle radius) = [Str ''Drawing circle with radius: '', Dbl radius, Endl]"

fun Rectangle_draw :: "Rectangle \<Rightarrow> ostream" where
  "Rectangle_draw (Rectangle width height) =
     [Str ''Drawing rectangle: '', Dbl width, Str ''x'', Dbl height, Endl]"

fun Triangle_draw :: "Triangle \<Rightarrow> ostream" where
  "Triangle_draw (Triangle base height) =
     [Str ''Drawing triangle: base='', Dbl base, Str '', height='', Dbl height, Endl]"

text \<open>
  The objects \<^verbatim>\<open>main\<close> wraps are of these three classes. \<open>shape_draw\<close> is the member
  \<^verbatim>\<open>draw\<close> of the object's own class: the body \<^verbatim>\<open>object.draw()\<close> of
  \<^verbatim>\<open>Model<Circle>::draw\<close> calls \<^verbatim>\<open>Circle::draw\<close>, that of \<^verbatim>\<open>Model<Rectangle>::draw\<close> calls
  \<^verbatim>\<open>Rectangle::draw\<close>, and so on.
\<close>

datatype shape = A_Circle Circle | A_Rectangle Rectangle | A_Triangle Triangle

fun shape_draw :: "shape \<Rightarrow> ostream" where
  "shape_draw (A_Circle c) = Circle_draw c"
| "shape_draw (A_Rectangle r) = Rectangle_draw r"
| "shape_draw (A_Triangle t) = Triangle_draw t"


section \<open>Memory\<close>

text \<open>
  \<^verbatim>\<open>Drawable\<close> holds a \<^verbatim>\<open>std::unique_ptr<Concept> pImpl\<close> to a heap object of class
  \<^verbatim>\<open>Model<T>\<close>, whose only member is \<^verbatim>\<open>T object\<close>. The constructor of \<^verbatim>\<open>Drawable\<close> takes
  a forwarding reference, \<^verbatim>\<open>template<typename T> Drawable(T&& obj)\<close>, and allocates a
  \<^verbatim>\<open>Model<T>\<close> for the deduced \<^verbatim>\<open>T\<close>:
  \<^item> for an lvalue argument of type \<^verbatim>\<open>U\<close>, \<^verbatim>\<open>T = U&\<close>, and the member \<^verbatim>\<open>T object\<close> is a
    reference \<^verbatim>\<open>U& object\<close> bound to the argument;
  \<^item> for an rvalue argument, \<^verbatim>\<open>T = U\<close>, and \<^verbatim>\<open>Model<U>\<close> would hold a \<^verbatim>\<open>U\<close> by value. But
    \<^verbatim>\<open>Model<U>::clone() const\<close> passes its member, a \<^verbatim>\<open>const\<close> lvalue there, to the only
    constructor \<^verbatim>\<open>Model(U&&)\<close>, which cannot bind it; \<^verbatim>\<open>clone\<close> is virtual, so the class is
    ill-formed as soon as it is instantiated. A program that wraps an rvalue (lines
    214 to 216 and 259 of \<^verbatim>\<open>main\<close> do) is not translated, and no run of the program has
    such a model. The model below has none either.
  Since a model refers to an object outside it, objects live in a memory, at addresses.
  A cell is an object of a wrapped class, a \<^verbatim>\<open>Drawable\<close> (its \<^verbatim>\<open>pImpl\<close>; \<open>None\<close> is the
  null pointer) or a \<^verbatim>\<open>Model<U&>\<close> (the address its reference is bound to). Addresses
  are handed out in increasing order and never reused; \<open>next_free\<close> is the first
  unused one.
\<close>

type_synonym addr = nat

datatype 'a cell =
    Object 'a
  | DrawableObj "addr option"
  | Model_reference addr

record 'a memory =
  cells :: "addr \<Rightarrow> 'a cell option"
  next_free :: addr

definition empty_memory :: "'a memory" where
  "empty_memory = \<lparr>cells = (\<lambda>a. None), next_free = 0\<rparr>"

definition allocate :: "'a cell \<Rightarrow> 'a memory \<Rightarrow> addr \<times> 'a memory" where
  "allocate c m =
     (next_free m, \<lparr>cells = (cells m)(next_free m := Some c), next_free = Suc (next_free m)\<rparr>)"

text \<open>
  A \<^verbatim>\<open>unique_ptr\<close> that is overwritten deletes the object it owned; deleting through a
  null pointer does nothing.
\<close>

definition delete :: "addr option \<Rightarrow> 'a memory \<Rightarrow> 'a memory" where
  "delete p m = (case p of None \<Rightarrow> m | Some a \<Rightarrow> m\<lparr>cells := (cells m)(a := None)\<rparr>)"

text \<open>No cell lies at or beyond \<open>next_free\<close>: what \<open>allocate\<close> hands out is unused.\<close>

definition well_formed :: "'a memory \<Rightarrow> bool" where
  "well_formed m \<longleftrightarrow> (\<forall>a. next_free m \<le> a \<longrightarrow> cells m a = None)"

text \<open>Assigning a new value to a variable of a wrapped class, as in \<^verbatim>\<open>c = Circle(2.0);\<close>.\<close>

definition assign_object :: "addr \<Rightarrow> 'a \<Rightarrow> 'a memory \<Rightarrow> 'a memory" where
  "assign_object a v m = m\<lparr>cells := (cells m)(a := Some (Object v))\<rparr>"


section \<open>\<^verbatim>\<open>Drawable\<close>\<close>

text \<open>
  \<^verbatim>\<open>
  template<typename T>
  Drawable(T&& obj) : pImpl(std::make_unique<Model<T>>(std::forward<T>(obj))) {}
  // in Model<T>:
  Model(T&& obj) : object(std::forward<T>(obj)) {}
  T object;
  \<close>
  The argument is an lvalue; \<open>obj\<close> is the address of the object it names, which is an
  object of a wrapped class or a \<^verbatim>\<open>Drawable\<close> that is not \<^verbatim>\<open>const\<close> (\<^verbatim>\<open>T = Drawable&\<close>). The
  new \<^verbatim>\<open>Drawable\<close> is placed at a fresh address, which is returned.
\<close>

definition Drawable_ctor :: "addr \<Rightarrow> 'a memory \<Rightarrow> addr \<times> 'a memory" where
  "Drawable_ctor obj m =
     (let (p, m1) = allocate (Model_reference obj) m
      in allocate (DrawableObj (Some p)) m1)"

text \<open>
  \<^verbatim>\<open>
  std::unique_ptr<Concept> clone() const override { return std::make_unique<Model<T>>(object); }
  \<close>
  The virtual call reaches the \<^verbatim>\<open>clone\<close> of the model's own class, a \<^verbatim>\<open>Model<U&>\<close>: it
  yields a new \<^verbatim>\<open>Model<U&>\<close> whose reference is bound to the same object.
\<close>

definition Concept_clone :: "'a memory \<Rightarrow> addr \<Rightarrow> error + addr \<times> 'a memory" where
  "Concept_clone m p =
     (case cells m p of
        Some (Model_reference r) \<Rightarrow> Inr (allocate (Model_reference r) m)
      | _ \<Rightarrow> Inl Dangling)"

text \<open>
  \<^verbatim>\<open>Drawable(const Drawable& other) : pImpl(other.pImpl->clone()) {}\<close>
\<close>

definition Drawable_copy_ctor :: "addr \<Rightarrow> 'a memory \<Rightarrow> error + addr \<times> 'a memory" where
  "Drawable_copy_ctor other m =
     (case cells m other of
        Some (DrawableObj (Some p)) \<Rightarrow>
          (case Concept_clone m p of
             Inl e \<Rightarrow> Inl e
           | Inr (q, m1) \<Rightarrow> Inr (allocate (DrawableObj (Some q)) m1))
      | Some (DrawableObj None) \<Rightarrow> Inl NullDeref
      | _ \<Rightarrow> Inl Dangling)"

text \<open>
  \<^verbatim>\<open>
  Drawable& operator=(const Drawable& other) { pImpl = other.pImpl->clone(); return *this; }
  \<close>
  The clone is made first; assigning it to \<^verbatim>\<open>pImpl\<close> deletes the model owned before.
\<close>

definition Drawable_copy_assign :: "addr \<Rightarrow> addr \<Rightarrow> 'a memory \<Rightarrow> error + 'a memory" where
  "Drawable_copy_assign this other m =
     (case cells m other of
        Some (DrawableObj (Some p)) \<Rightarrow>
          (case Concept_clone m p of
             Inl e \<Rightarrow> Inl e
           | Inr (q, m1) \<Rightarrow>
               (case cells m1 this of
                  Some (DrawableObj old) \<Rightarrow>
                    Inr (delete old (m1\<lparr>cells := (cells m1)(this := Some (DrawableObj (Some q)))\<rparr>))
                | _ \<Rightarrow> Inl Dangling))
      | Some (DrawableObj None) \<Rightarrow> Inl NullDeref
      | _ \<Rightarrow> Inl Dangling)"

text \<open>
  \<^verbatim>\<open>Drawable(Drawable&&) = default;\<close> moves the member: the new object's \<^verbatim>\<open>pImpl\<close> takes the
  pointer and the source's \<^verbatim>\<open>pImpl\<close> becomes null (the moves of \<^verbatim>\<open>unique_ptr\<close> are specified
  so). No model is touched.
\<close>

definition Drawable_move_ctor :: "addr \<Rightarrow> 'a memory \<Rightarrow> error + addr \<times> 'a memory" where
  "Drawable_move_ctor other m =
     (case cells m other of
        Some (DrawableObj p) \<Rightarrow>
          Inr (allocate (DrawableObj p) (m\<lparr>cells := (cells m)(other := Some (DrawableObj None))\<rparr>))
      | _ \<Rightarrow> Inl Dangling)"

text \<open>
  \<^verbatim>\<open>Drawable& operator=(Drawable&&) = default;\<close> move-assigns the member:
  \<^verbatim>\<open>pImpl.reset(other.pImpl.release())\<close>. The source is read and set to null first, then
  this object's pointer is replaced and the model it owned is deleted.
\<close>

definition Drawable_move_assign :: "addr \<Rightarrow> addr \<Rightarrow> 'a memory \<Rightarrow> error + 'a memory" where
  "Drawable_move_assign this other m =
     (case cells m other of
        Some (DrawableObj p) \<Rightarrow>
          (let m1 = m\<lparr>cells := (cells m)(other := Some (DrawableObj None))\<rparr>
           in case cells m1 this of
                Some (DrawableObj old) \<Rightarrow>
                  Inr (delete old (m1\<lparr>cells := (cells m1)(this := Some (DrawableObj p))\<rparr>))
              | _ \<Rightarrow> Inl Dangling)
      | _ \<Rightarrow> Inl Dangling)"

text \<open>
  \<^verbatim>\<open>
  void draw() const { pImpl->draw(); }                 // Drawable
  void draw() const override { object.draw(); }        // Model<T>
  \<close>
  \<^verbatim>\<open>Drawable::draw\<close> dereferences \<^verbatim>\<open>pImpl\<close> with no test; on a null pointer the behaviour
  is undefined. \<^verbatim>\<open>Model<T>::draw\<close> calls \<^verbatim>\<open>draw\<close> on the object its reference is bound to,
  which is an object of a wrapped class or, for \<^verbatim>\<open>T = Drawable&\<close>, a \<^verbatim>\<open>Drawable\<close> again.
  References between \<^verbatim>\<open>Drawable\<close>s can form a cycle, on which the calls never return; the
  first argument bounds the depth of nested calls, and \<open>None\<close> says the bound was
  reached. \<open>T_draw\<close> is the member \<^verbatim>\<open>draw\<close> of the wrapped classes, a \<^verbatim>\<open>const\<close> member
  function; the result is what the call writes to \<^verbatim>\<open>std::cout\<close>.
\<close>

fun Drawable_draw :: "nat \<Rightarrow> ('a \<Rightarrow> ostream) \<Rightarrow> 'a memory \<Rightarrow> addr \<Rightarrow> (error + ostream) option"
  and Concept_draw :: "nat \<Rightarrow> ('a \<Rightarrow> ostream) \<Rightarrow> 'a memory \<Rightarrow> addr \<Rightarrow> (error + ostream) option"
where
  "Drawable_draw 0 T_draw m this = None"
| "Drawable_draw (Suc n) T_draw m this =
     (case cells m this of
        Some (DrawableObj (Some p)) \<Rightarrow> Concept_draw n T_draw m p
      | Some (DrawableObj None) \<Rightarrow> Some (Inl NullDeref)
      | _ \<Rightarrow> Some (Inl Dangling))"
| "Concept_draw 0 T_draw m p = None"
| "Concept_draw (Suc n) T_draw m p =
     (case cells m p of
        Some (Model_reference r) \<Rightarrow>
          (case cells m r of
             Some (Object obj) \<Rightarrow> Some (Inr (T_draw obj))
           | Some (DrawableObj q) \<Rightarrow> Drawable_draw n T_draw m r
           | _ \<Rightarrow> Some (Inl Dangling))
      | _ \<Rightarrow> Some (Inl Dangling))"




section \<open>\<^verbatim>\<open>BadTypeEraser\<close> and \<^verbatim>\<open>AnyTypeEraser\<close>\<close>

text \<open>
  \<^verbatim>\<open>
  BadTypeEraser() : data_(nullptr), type_(nullptr) {}
  template<typename T>
  BadTypeEraser(const T& value) : data_(new T(value)), type_(&typeid(T)) {}
  template<typename T>
  T* get() { if (type_ && *type_ == typeid(T)) { return static_cast<T*>(data_); } return nullptr; }
  void* data_;
  const std::type_info* type_;
  \<close>
  A type is identified by its \<^verbatim>\<open>std::type_info\<close>, as the comparison in \<^verbatim>\<open>get\<close> does; the
  type of these identities is the parameter \<open>'ty\<close>. The template argument \<^verbatim>\<open>T\<close> of the
  constructor and of \<^verbatim>\<open>get\<close> is passed as such an identity. \<^verbatim>\<open>new T(value)\<close> puts a copy of
  the value at a fresh address. \<open>None\<close> is the null pointer. The \<^verbatim>\<open>const\<close> overload of
  \<^verbatim>\<open>get\<close> has the same body.
\<close>

record 'ty BadTypeEraser =
  bad_data :: "addr option"
  bad_type :: "'ty option"

definition BadTypeEraser_default :: "'ty BadTypeEraser" where
  "BadTypeEraser_default = \<lparr>bad_data = None, bad_type = None\<rparr>"

definition BadTypeEraser_ctor :: "'ty \<Rightarrow> 'a \<Rightarrow> 'a memory \<Rightarrow> 'ty BadTypeEraser \<times> 'a memory" where
  "BadTypeEraser_ctor T v m =
     (let (p, m1) = allocate (Object v) m
      in (\<lparr>bad_data = Some p, bad_type = Some T\<rparr>, m1))"

definition BadTypeEraser_get :: "'ty \<Rightarrow> 'ty BadTypeEraser \<Rightarrow> addr option" where
  "BadTypeEraser_get T this =
     (case bad_type this of
        Some t \<Rightarrow> if t = T then bad_data this else None
      | None \<Rightarrow> None)"

text \<open>
  \<^verbatim>\<open>
  AnyTypeEraser() = default;
  template<typename T> AnyTypeEraser(T value) : data_(std::move(value)) {}
  template<typename T> T* get() { return std::any_cast<T>(&data_); }
  bool hasValue() const { return data_.has_value(); }
  std::any data_;
  \<close>
  A \<^verbatim>\<open>std::any\<close> is empty or owns one contained object, whose type it records. The
  contained object is given an address when it is stored. \<^verbatim>\<open>std::any_cast<T>(&a)\<close> returns
  a pointer to the contained object when \<^verbatim>\<open>a\<close> holds one and \<^verbatim>\<open>a.type() == typeid(T)\<close>, and
  the null pointer otherwise.
\<close>

datatype 'ty any = Any_empty | Any_holding 'ty addr

definition any_has_value :: "'ty any \<Rightarrow> bool" where
  "any_has_value a = (case a of Any_empty \<Rightarrow> False | Any_holding t p \<Rightarrow> True)"

definition any_cast :: "'ty \<Rightarrow> 'ty any \<Rightarrow> addr option" where
  "any_cast T a =
     (case a of
        Any_empty \<Rightarrow> None
      | Any_holding t p \<Rightarrow> if t = T then Some p else None)"

record 'ty AnyTypeEraser =
  any_data :: "'ty any"

definition AnyTypeEraser_default :: "'ty AnyTypeEraser" where
  "AnyTypeEraser_default = \<lparr>any_data = Any_empty\<rparr>"

definition AnyTypeEraser_ctor :: "'ty \<Rightarrow> 'a \<Rightarrow> 'a memory \<Rightarrow> 'ty AnyTypeEraser \<times> 'a memory" where
  "AnyTypeEraser_ctor T v m =
     (let (p, m1) = allocate (Object v) m
      in (\<lparr>any_data = Any_holding T p\<rparr>, m1))"

definition AnyTypeEraser_get :: "'ty \<Rightarrow> 'ty AnyTypeEraser \<Rightarrow> addr option" where
  "AnyTypeEraser_get T this = any_cast T (any_data this)"

definition AnyTypeEraser_hasValue :: "'ty AnyTypeEraser \<Rightarrow> bool" where
  "AnyTypeEraser_hasValue this = any_has_value (any_data this)"


section \<open>Programs that use \<^verbatim>\<open>Drawable\<close>\<close>


text \<open>
  The end of \<^verbatim>\<open>main\<close> (lines 259 to 270), with the circle held in a variable:
  \<^verbatim>\<open>
  Circle c(10.0);
  Drawable original(c);
  Drawable copy = original; // Copy constructor
  Drawable moved = std::move(original); // Move constructor
  // original.draw(); // This would be invalid after move
  copy.draw();
  moved.draw();
  \<close>
  Which constructor initialises each object is decided by overload resolution among
  the constructors of \<^verbatim>\<open>Drawable\<close>:
  \<^item> \<^verbatim>\<open>original\<close>: the argument is an lvalue \<^verbatim>\<open>Circle\<close>; only the template is viable, with
    \<^verbatim>\<open>T = Circle&\<close>.
  \<^item> \<^verbatim>\<open>copy\<close>: the argument \<^verbatim>\<open>original\<close> is an lvalue of type \<^verbatim>\<open>Drawable\<close> that is not
    \<^verbatim>\<open>const\<close>. The template is viable with \<^verbatim>\<open>T = Drawable&\<close>, its parameter being
    \<^verbatim>\<open>Drawable&\<close>; the copy constructor's parameter is \<^verbatim>\<open>const Drawable&\<close>. Binding a
    reference to the less qualified type is the better conversion, so the template is
    chosen, and the new object holds a \<^verbatim>\<open>Model<Drawable&>\<close> whose member refers to
    \<^verbatim>\<open>original\<close>. (The copy constructor is chosen for a \<^verbatim>\<open>const\<close> source.)
  \<^item> \<^verbatim>\<open>moved\<close>: for the rvalue \<^verbatim>\<open>std::move(original)\<close> the template with \<^verbatim>\<open>T = Drawable\<close>
    and the move constructor take the same parameter type, and the non-template wins.
  The result is the addresses of the three wrappers and the memory.
\<close>

definition copying_and_moving :: "error + (addr \<times> addr \<times> addr) \<times> shape memory" where
  "copying_and_moving =
     (let (c, m0) = allocate (Object (A_Circle (Circle 10))) empty_memory;
          (original, m1) = Drawable_ctor c m0;
          (copy, m2) = Drawable_ctor original m1
      in case Drawable_move_ctor original m2 of
           Inl e \<Rightarrow> Inl e
         | Inr (moved, m3) \<Rightarrow> Inr ((original, copy, moved), m3))"

text \<open>
  The copy constructor itself, which is chosen for a \<^verbatim>\<open>const\<close> source:
  \<^verbatim>\<open>
  Circle c(10.0);
  Drawable a(c);          // T = Circle&: the model holds a reference to c
  const Drawable& r = a;
  Drawable b(r);          // Drawable(const Drawable&): pImpl(other.pImpl->clone())
  \<close>
  The result is the addresses of \<^verbatim>\<open>c\<close>, \<^verbatim>\<open>a\<close> and \<^verbatim>\<open>b\<close> and the memory.
\<close>

definition copying_a_wrapped_lvalue :: "error + (addr \<times> addr \<times> addr) \<times> shape memory" where
  "copying_a_wrapped_lvalue =
     (let (c, m1) = allocate (Object (A_Circle (Circle 10))) empty_memory;
          (a, m2) = Drawable_ctor c m1
      in case Drawable_copy_ctor a m2 of
           Inl e \<Rightarrow> Inl e
         | Inr (b, m3) \<Rightarrow> Inr ((c, a, b), m3))"

text \<open>
  A wrapper, a second wrapper initialised from it, and the second moved back into the
  first:
  \<^verbatim>\<open>
  Circle c(10.0);
  Drawable a(c);
  Drawable b = a;         // the template with T = Drawable&: b's model refers to a
  b.draw();
  a = std::move(b);       // Drawable& operator=(Drawable&&)
  a.draw();
  \<close>
  \<open>wrapper_and_its_copy\<close> is the addresses of \<^verbatim>\<open>c\<close>, \<^verbatim>\<open>a\<close> and \<^verbatim>\<open>b\<close> and the memory before the
  assignment, \<open>copy_moved_back\<close> the memory after it.
\<close>

definition wrapper_and_its_copy :: "(addr \<times> addr \<times> addr) \<times> shape memory" where
  "wrapper_and_its_copy =
     (let (c, m1) = allocate (Object (A_Circle (Circle 10))) empty_memory;
          (a, m2) = Drawable_ctor c m1;
          (b, m3) = Drawable_ctor a m2
      in ((c, a, b), m3))"

definition copy_moved_back :: "error + shape memory" where
  "copy_moved_back =
     (case wrapper_and_its_copy of
        ((c, a, b), m) \<Rightarrow> Drawable_move_assign a b m)"


section \<open>A wrapped class whose move constructor changes its source\<close>

text \<open>
  The constructor templates accept every copyable class with members \<^verbatim>\<open>print() const\<close>
  and \<^verbatim>\<open>calculate(int) const\<close>. The following class is such an argument; like any class
  that hands a resource over when moved from, its move constructor resets the source:
  \<^verbatim>\<open>
  class Token {
  public:
      explicit Token(int n) : n_(n) {}
      Token(const Token&) = default;
      Token(Token&& other) noexcept : n_(other.n_) { other.n_ = 0; }
      void print() const { std::cout << "Token: " << n_ << std::endl; }
      int calculate(int value) const { return value + n_; }
  private:
      int n_;
  };
  \<close>
\<close>

datatype Token = Token (token_n: int)

definition Token_print :: "Token \<Rightarrow> ostream" where
  "Token_print t = [Str ''Token: '', Num (token_n t), Endl]"

definition Token_calculate :: "Token \<Rightarrow> int \<Rightarrow> error + int" where
  "Token_calculate t v = int_result (v + token_n t)"

definition Token_ops :: "Token T_ops" where
  "Token_ops = \<lparr>T_print = Token_print, T_calculate = Token_calculate,
     T_moved_from = (\<lambda>t. Token 0), T_name = ''Token''\<rparr>"


section \<open>What an eraser is bound to\<close>

text \<open>
  The closures bound in a \<^verbatim>\<open>ModernTypeEraser\<close>, without their captured objects: for each
  of the three function members, whether it holds a closure and of which instantiation.
\<close>

definition bound_closures ::
  "'a ModernTypeEraser \<Rightarrow> 'a T_ops option \<times> 'a T_ops option \<times> 'a T_ops option" where
  "bound_closures e =
     (map_option lambda_T (printFunc e), map_option lambda_T (calculateFunc e),
      map_option lambda_T (cloneFunc e))"


section \<open>Lemmas\<close>

subsection \<open>Allocation\<close>

lemma allocate_fresh:
  "well_formed m \<Longrightarrow> cells m (next_free m) = None"
  by (simp add: well_formed_def)

lemma allocate_well_formed:
  "well_formed m \<Longrightarrow> well_formed (snd (allocate c m))"
  by (simp add: well_formed_def allocate_def)

lemma well_formed_empty: "well_formed empty_memory"
  by (simp add: well_formed_def empty_memory_def)

subsection \<open>A larger bound on the depth does not change a result\<close>

lemma draw_Suc_both:
  "(\<forall>a r. Drawable_draw k T m a = Some r \<longrightarrow> Drawable_draw (Suc k) T m a = Some r) \<and>
   (\<forall>p r. Concept_draw k T m p = Some r \<longrightarrow> Concept_draw (Suc k) T m p = Some r)"
proof (induction k)
  case 0
  show ?case by simp
next
  case (Suc k)
  then have ihd: "\<And>a r. Drawable_draw k T m a = Some r \<Longrightarrow> Drawable_draw (Suc k) T m a = Some r"
    and ihc: "\<And>p r. Concept_draw k T m p = Some r \<Longrightarrow> Concept_draw (Suc k) T m p = Some r"
    by blast+
  have d: "Drawable_draw (Suc (Suc k)) T m a = Some r"
    if "Drawable_draw (Suc k) T m a = Some r" for a r
    using that ihc by (auto simp del: Concept_draw.simps split: option.splits cell.splits)
  have c: "Concept_draw (Suc (Suc k)) T m p = Some r"
    if "Concept_draw (Suc k) T m p = Some r" for p r
    using that ihd by (auto simp del: Drawable_draw.simps split: option.splits cell.splits)
  from d c show ?case by blast
qed

lemma Drawable_draw_Suc:
  "Drawable_draw k T m a = Some r \<Longrightarrow> Drawable_draw (Suc k) T m a = Some r"
  using draw_Suc_both by blast

lemma Drawable_draw_None_pred:
  "Drawable_draw (Suc k) T m a = None \<Longrightarrow> Drawable_draw k T m a = None"
  using Drawable_draw_Suc by (cases "Drawable_draw k T m a") fastforce+

subsection \<open>A \<^verbatim>\<open>Drawable\<close> whose model refers to itself\<close>

text \<open>The calls go round for ever: within no bound on the depth does \<^verbatim>\<open>draw\<close> return.\<close>

lemma draw_on_self_reference:
  assumes own: "cells m a = Some (DrawableObj (Some q))"
    and self: "cells m q = Some (Model_reference a)"
  shows "Drawable_draw k T m a = None \<and> Concept_draw k T m q = None"
proof (induction k)
  case 0
  show ?case by simp
next
  case (Suc k)
  then show ?case using own self by simp
qed

subsection \<open>Drawing after a \<^verbatim>\<open>Drawable\<close> has been moved by the move constructor\<close>

text \<open>
  \<open>m'\<close> differs from \<open>m\<close> at most at the moved-from object \<open>src\<close> and at the new object
  \<open>dst\<close>. A call that returns in \<open>m\<close> within a depth at which \<open>draw\<close> on \<open>src\<close> does not
  return has not gone through \<open>src\<close>, and returns the same in \<open>m'\<close>.
\<close>

lemma draw_avoiding_source:
  assumes same: "\<And>a. a \<noteq> src \<Longrightarrow> a \<noteq> dst \<Longrightarrow> cells m' a = cells m a"
    and dst: "cells m dst = None"
    and src: "cells m src = Some (DrawableObj ps)"
  shows "(\<forall>a. Drawable_draw k T m a = Some (Inr r) \<and> Drawable_draw k T m src = None
            \<longrightarrow> Drawable_draw k T m' a = Some (Inr r)) \<and>
         (\<forall>p. Concept_draw k T m p = Some (Inr r) \<and> Drawable_draw k T m src = None
            \<longrightarrow> Concept_draw k T m' p = Some (Inr r))"
proof (induction k)
  case 0
  show ?case by simp
next
  case (Suc k)
  have d: "Drawable_draw (Suc k) T m' a = Some (Inr r)"
    if h: "Drawable_draw (Suc k) T m a = Some (Inr r)"
      and none: "Drawable_draw (Suc k) T m src = None" for a
  proof -
    have "a \<noteq> src" using h none by auto
    moreover have "a \<noteq> dst" using h dst by auto
    ultimately have eq: "cells m' a = cells m a" by (rule same)
    have none': "Drawable_draw k T m src = None" using none by (rule Drawable_draw_None_pred)
    show ?thesis using h eq none' Suc
      by (auto split: option.splits cell.splits)
  qed
  have c: "Concept_draw (Suc k) T m' p = Some (Inr r)"
    if h: "Concept_draw (Suc k) T m p = Some (Inr r)"
      and none: "Drawable_draw (Suc k) T m src = None" for p
  proof -
    have "p \<noteq> src" using h src by auto
    moreover have "p \<noteq> dst" using h dst by auto
    ultimately have eq: "cells m' p = cells m p" by (rule same)
    have none': "Drawable_draw k T m src = None" using none by (rule Drawable_draw_None_pred)
    show ?thesis
    proof (cases "cells m p")
      case None
      then show ?thesis using h by simp
    next
      case (Some c)
      show ?thesis
      proof (cases c)
        case (Model_reference r0)
        have r0_dst: "r0 \<noteq> dst" using h Some Model_reference dst by auto
        show ?thesis
        proof (cases "r0 = src")
          case True
          then have "Drawable_draw k T m src = Some (Inr r)"
            using h Some Model_reference src by simp
          then show ?thesis using none' by simp
        next
          case False
          then have "cells m' r0 = cells m r0" using r0_dst by (rule same)
          then show ?thesis using h eq Some Model_reference none' Suc
            by (auto split: option.splits cell.splits)
        qed
      qed (use h eq Some in auto)
    qed
  qed
  from d c show ?case by blast
qed

lemma draw_after_move:
  assumes same: "\<And>a. a \<noteq> src \<Longrightarrow> a \<noteq> dst \<Longrightarrow> cells m' a = cells m a"
    and dst: "cells m dst = None"
    and src: "cells m src = Some (DrawableObj ps)"
    and dst': "cells m' dst = Some (DrawableObj ps)"
  shows "Drawable_draw k T m src = Some (Inr r) \<Longrightarrow> Drawable_draw k T m' dst = Some (Inr r)"
proof (induction k)
  case 0
  then show ?case by simp
next
  case (Suc k)
  show ?case
  proof (cases "Drawable_draw k T m src")
    case None
    from Suc.prems src obtain p where p: "ps = Some p" and c: "Concept_draw k T m p = Some (Inr r)"
      by (auto split: option.splits)
    have "Concept_draw k T m' p = Some (Inr r)"
      using draw_avoiding_source[OF same dst src, of k T r] c None by blast
    then show ?thesis using dst' p by simp
  next
    case (Some x)
    then have "Drawable_draw (Suc k) T m src = Some x" by (rule Drawable_draw_Suc)
    then have "x = Inr r" using Suc.prems by simp
    then have "Drawable_draw k T m' dst = Some (Inr r)" using Some Suc.IH by simp
    then show ?thesis by (rule Drawable_draw_Suc)
  qed
qed

text \<open>
  The move constructor of \<^verbatim>\<open>Drawable\<close>: the new object holds the pointer, the source is
  null, no other cell changes, and \<^verbatim>\<open>draw\<close> on the new object returns what \<^verbatim>\<open>draw\<close> on
  the source returned.
\<close>

lemma Drawable_move_ctor_transfers:
  assumes wf: "well_formed m" and src: "cells m other = Some (DrawableObj p)"
  shows "\<exists>this m'. Drawable_move_ctor other m = Inr (this, m') \<and>
           this \<noteq> other \<and> cells m this = None \<and>
           cells m' this = Some (DrawableObj p) \<and>
           cells m' other = Some (DrawableObj None) \<and>
           (\<forall>a. a \<noteq> this \<and> a \<noteq> other \<longrightarrow> cells m' a = cells m a) \<and>
           (\<forall>k out. Drawable_draw k T_draw m other = Some (Inr out)
                \<longrightarrow> Drawable_draw k T_draw m' this = Some (Inr out))"
proof -
  define this where "this = next_free m"
  define m' where "m' = snd (allocate (DrawableObj p)
      (m\<lparr>cells := (cells m)(other := Some (DrawableObj None))\<rparr>))"
  have fresh: "cells m this = None"
    using wf by (simp add: this_def allocate_fresh)
  then have ne: "this \<noteq> other" using src by auto
  have run: "Drawable_move_ctor other m = Inr (this, m')"
    using src by (simp add: Drawable_move_ctor_def m'_def this_def allocate_def)
  have at_this: "cells m' this = Some (DrawableObj p)"
    by (simp add: m'_def this_def allocate_def)
  have at_other: "cells m' other = Some (DrawableObj None)"
    using ne by (simp add: m'_def this_def allocate_def)
  have same: "cells m' a = cells m a" if "a \<noteq> other" "a \<noteq> this" for a
    using that by (simp add: m'_def this_def allocate_def)
  have draw: "Drawable_draw k T_draw m' this = Some (Inr out)"
    if "Drawable_draw k T_draw m other = Some (Inr out)" for k out
    using draw_after_move[OF same fresh src at_this] that by blast
  show ?thesis
    using run ne fresh at_this at_other same draw by blast
qed

subsection \<open>The moves of \<^verbatim>\<open>ModernTypeEraser\<close>\<close>

text \<open>
  With every library the destination is the source as it was. On the moved-from source
  \<^verbatim>\<open>isValid()\<close> is false when the library leaves a moved-from function empty.
\<close>

lemma ModernTypeEraser_move_destination:
  "fst (ModernTypeEraser_move_ctor L e) = e \<and> fst (ModernTypeEraser_move_assign L e' e) = e"
  by (simp add: ModernTypeEraser_move_ctor_def ModernTypeEraser_move_assign_def)

lemma ModernTypeEraser_move_source:
  "function_after_move L (printFunc e) = None \<Longrightarrow>
   \<not> ModernTypeEraser_isValid (snd (ModernTypeEraser_move_ctor L e)) \<and>
   \<not> ModernTypeEraser_isValid (snd (ModernTypeEraser_move_assign L e' e))"
  by (simp add: ModernTypeEraser_move_ctor_def ModernTypeEraser_move_assign_def
      ModernTypeEraser_isValid_def)

subsection \<open>\<^verbatim>\<open>TypeErasureContainer\<close>\<close>

lemma execute_each_world:
  "snd (execute_each T ops w) = foldl (\<lambda>w v. snd (T v w)) w (map operation ops)"
  by (induction ops arbitrary: w) (simp_all add: Let_def OperationWrapper_execute_def split_beta)

lemma execute_each_length: "length (fst (execute_each T ops w)) = length ops"
  by (induction ops arbitrary: w) (simp_all add: Let_def split_beta)

lemma operations_after_adds:
  "operations (foldl (\<lambda>c v. add v c) c vs) = operations c @ map OperationWrapper vs"
  by (induction vs arbitrary: c) (auto simp: add_def)

lemma log_of_calls: "foldl (\<lambda>w v. w @ [v]) w vs = w @ vs"
  by (induction vs arbitrary: w) auto

subsection \<open>\<^verbatim>\<open>ModernTypeEraser::clone\<close>\<close>

lemma clone_keeps:
  "printFunc (snd (ModernTypeEraser_clone e)) = printFunc e \<and>
   calculateFunc (snd (ModernTypeEraser_clone e)) = calculateFunc e \<and>
   typeName (snd (ModernTypeEraser_clone e)) = typeName e \<and>
   map_option lambda_T (cloneFunc (snd (ModernTypeEraser_clone e))) = map_option lambda_T (cloneFunc e)"
  by (simp add: ModernTypeEraser_clone_def split: option.splits)

lemma clones_keep:
  "printFunc (((\<lambda>e. snd (ModernTypeEraser_clone e)) ^^ j) e) = printFunc e \<and>
   calculateFunc (((\<lambda>e. snd (ModernTypeEraser_clone e)) ^^ j) e) = calculateFunc e \<and>
   typeName (((\<lambda>e. snd (ModernTypeEraser_clone e)) ^^ j) e) = typeName e \<and>
   map_option lambda_T (cloneFunc (((\<lambda>e. snd (ModernTypeEraser_clone e)) ^^ j) e))
     = map_option lambda_T (cloneFunc e)"
  by (induction j) (simp_all add: clone_keeps)

subsection \<open>Wrapping and calling, where the wrapper agrees with the wrapped object\<close>

lemma ModernTypeEraser_print_wrapped:
  "ModernTypeEraser_print (ModernTypeEraser_ctor T v) = T_print T v"
  by (simp add: ModernTypeEraser_print_def ModernTypeEraser_ctor_def Let_def)

lemma ModernTypeEraser_calculate_wrapped:
  "T_moved_from T v = v \<Longrightarrow>
   ModernTypeEraser_calculate (ModernTypeEraser_ctor T v) x = T_calculate T v x"
  by (simp add: ModernTypeEraser_calculate_def ModernTypeEraser_ctor_def Let_def)

lemma Drawable_draw_wrapped_lvalue:
  "well_formed m \<Longrightarrow> cells m a = Some (Object obj) \<Longrightarrow>
   Drawable_draw (Suc (Suc k)) T_draw (snd (Drawable_ctor a m))
     (fst (Drawable_ctor a m)) = Some (Inr (T_draw obj))"
  by (auto simp: Drawable_ctor_def allocate_def Let_def well_formed_def)

subsection \<open>The copy constructor of \<^verbatim>\<open>Drawable\<close>\<close>

text \<open>The model of the copy refers to the object the model of the source refers to.\<close>

lemma Drawable_copy_ctor_of_reference:
  "well_formed m \<Longrightarrow> cells m other = Some (DrawableObj (Some p)) \<Longrightarrow>
   cells m p = Some (Model_reference r) \<Longrightarrow>
   \<exists>m'. Drawable_copy_ctor other m = Inr (Suc (next_free m), m') \<and>
     cells m' (Suc (next_free m)) = Some (DrawableObj (Some (next_free m))) \<and>
     cells m' (next_free m) = Some (Model_reference r)"
  by (auto simp: Drawable_copy_ctor_def Concept_clone_def allocate_def well_formed_def)


section \<open>Results\<close>

text \<open>
  C1. For every wrapped type, wrapping an instance and invoking a capability returns what
  the call on the unwrapped instance returns. \<^verbatim>\<open>ModernTypeEraser\<close> does not do so for
  \<^verbatim>\<open>calculate\<close> when the move constructor of the wrapped class changes its source: the
  constructor moves from its parameter three times, and the closure of
  \<^verbatim>\<open>calculateFunc_\<close> captures the parameter after the first move. For \<^verbatim>\<open>Token(5)\<close> the direct
  call \<^verbatim>\<open>calculate(7)\<close> returns 12 and the call through the eraser returns 7.
  (\<open>ModernTypeEraser_print_wrapped\<close>, \<open>ModernTypeEraser_calculate_wrapped\<close> and
  \<open>Drawable_draw_wrapped_lvalue\<close> above are the cases in which wrapper and object agree.)
\<close>

theorem C1_calculate_on_moved_from_value:
  "T_calculate Token_ops (Token 5) 7 = Inr 12 \<and>
   ModernTypeEraser_calculate (ModernTypeEraser_ctor Token_ops (Token 5)) 7 = Inr 7"
  by (simp add: ModernTypeEraser_calculate_def ModernTypeEraser_ctor_def Let_def
      Token_ops_def Token_calculate_def int_result_def in_int_range_def)

text \<open>
  C2. Wrapping a \<^verbatim>\<open>Calculator\<close> constructed with multiplier 5 in a
  \<^verbatim>\<open>ModernTypeEraser\<close> and invoking \<^verbatim>\<open>calculate\<close> with input 7 returns 35
  (\<^verbatim>\<open>ModernTypeEraser calcEraser(Calculator(5)); calcEraser.calculate(7)\<close> in \<^verbatim>\<open>main\<close>).
\<close>

theorem C2_calculator_5_times_7:
  "ModernTypeEraser_calculate (ModernTypeEraser_ctor Calculator_ops (Calculator 5)) 7 = Inr 35"
  by (simp add: ModernTypeEraser_calculate_def ModernTypeEraser_ctor_def Let_def
      Calculator_ops_def Calculator_calculate_def int_result_def in_int_range_def)

text \<open>
  C3. A \<^verbatim>\<open>TypeErasureContainer\<close> built from the empty one by \<^verbatim>\<open>add\<close>ing the values \<open>vs\<close>
  one after the other has \<open>length vs\<close> elements, and one \<^verbatim>\<open>executeAll\<close> calls \<^verbatim>\<open>execute\<close>
  once on each, in the order of insertion: when \<^verbatim>\<open>execute\<close> appends the object it runs on
  to a log, the log after the traversal is exactly \<open>vs\<close>; for any \<^verbatim>\<open>execute\<close> the outside
  state after the traversal is that of running \<^verbatim>\<open>execute\<close> on the values of \<open>vs\<close> from
  first to last; and the container still has \<open>length vs\<close> elements.
\<close>

theorem C3_executeAll_visits_in_insertion_order:
  "size_of (foldl (\<lambda>c v. add v c) TypeErasureContainer_new vs) = length vs \<and>
   snd (executeAll (\<lambda>v log. (v, log @ [v]))
          (foldl (\<lambda>c v. add v c) TypeErasureContainer_new vs) []) = vs \<and>
   snd (executeAll T_execute (foldl (\<lambda>c v. add v c) TypeErasureContainer_new vs) w) =
     foldl (\<lambda>w v. snd (T_execute v w)) w vs \<and>
   size_of (fst (executeAll T_execute (foldl (\<lambda>c v. add v c) TypeErasureContainer_new vs) w))
     = length vs"
  by (simp add: size_of_def executeAll_def operations_after_adds TypeErasureContainer_new_def
      execute_each_world execute_each_length split_beta log_of_calls comp_def)

text \<open>
  C4. Copying an erased value gives the copy storage of its own. The code does not:
  \<^item> \<^verbatim>\<open>Drawable copy = original;\<close> builds a \<^verbatim>\<open>Model<Drawable&>\<close> that refers to
    \<^verbatim>\<open>original\<close>; nothing is duplicated. After \<^verbatim>\<open>original\<close> has been moved from,
    \<^verbatim>\<open>copy.draw()\<close> dereferences the null \<^verbatim>\<open>pImpl\<close> of \<^verbatim>\<open>original\<close>, while \<^verbatim>\<open>moved.draw()\<close>
    draws the circle.
  \<^item> The copy constructor, on a \<^verbatim>\<open>Drawable\<close> built from the lvalue \<^verbatim>\<open>c\<close>, yields a model
    bound to the same \<^verbatim>\<open>c\<close>; after \<^verbatim>\<open>c = Circle(2.0)\<close> both wrappers draw the new circle.
\<close>

theorem C4_copy_shares_storage:
  "(case copying_and_moving of
      Inl e \<Rightarrow> False
    | Inr ((original, copy, moved), m) \<Rightarrow>
        (original, copy, moved) = (2, 4, 5) \<and>
        cells m copy = Some (DrawableObj (Some 3)) \<and>
        cells m 3 = Some (Model_reference original) \<and>
        cells m original = Some (DrawableObj None) \<and>
        cells m moved = Some (DrawableObj (Some 1)) \<and>
        cells m 1 = Some (Model_reference 0) \<and>
        cells m 0 = Some (Object (A_Circle (Circle 10))) \<and>
        Drawable_draw (Suc (Suc (Suc k))) shape_draw m copy = Some (Inl NullDeref) \<and>
        Drawable_draw (Suc (Suc (Suc k))) shape_draw m moved
          = Some (Inr (Circle_draw (Circle 10)))) \<and>
   (case copying_a_wrapped_lvalue of
      Inl e \<Rightarrow> False
    | Inr ((c, a, b), m) \<Rightarrow>
        (c, a, b) = (0, 2, 4) \<and>
        cells m a = Some (DrawableObj (Some 1)) \<and> cells m 1 = Some (Model_reference c) \<and>
        cells m b = Some (DrawableObj (Some 3)) \<and> cells m 3 = Some (Model_reference c) \<and>
        Drawable_draw (Suc (Suc k)) shape_draw (assign_object c (A_Circle (Circle 2)) m) a
          = Some (Inr (Circle_draw (Circle 2))) \<and>
        Drawable_draw (Suc (Suc k)) shape_draw (assign_object c (A_Circle (Circle 2)) m) b
          = Some (Inr (Circle_draw (Circle 2))))"
  by (simp add: copying_and_moving_def copying_a_wrapped_lvalue_def Drawable_ctor_def
      Drawable_move_ctor_def Drawable_copy_ctor_def Concept_clone_def assign_object_def
      allocate_def empty_memory_def Let_def eval_nat_numeral)

text \<open>
  C5. After a move the destination behaves as the source did. The move assignment of
  \<^verbatim>\<open>Drawable\<close> does not achieve this when the model of the source refers to the
  destination. In \<open>wrapper_and_its_copy\<close>, \<^verbatim>\<open>b\<close> was initialised from \<^verbatim>\<open>a\<close>, so \<^verbatim>\<open>b\<close> holds a
  \<^verbatim>\<open>Model<Drawable&>\<close> that refers to \<^verbatim>\<open>a\<close>, and \<^verbatim>\<open>b.draw()\<close> draws the circle. After
  \<^verbatim>\<open>a = std::move(b)\<close> the pointer of \<^verbatim>\<open>b\<close> is null and \<^verbatim>\<open>a\<close> owns that model, which refers
  to \<^verbatim>\<open>a\<close> itself; the model \<^verbatim>\<open>a\<close> owned before is deleted, and \<^verbatim>\<open>a.draw()\<close> calls itself
  without end: it returns within no bound \<open>k\<close> on the depth.
  (\<open>Drawable_move_ctor_transfers\<close>, \<open>ModernTypeEraser_move_destination\<close> and
  \<open>ModernTypeEraser_move_source\<close> above are the moves that do hand the behaviour over.)
\<close>

theorem C5_move_assignment_self_reference:
  "fst wrapper_and_its_copy = (0, 2, 4) \<and>
   Drawable_draw (Suc (Suc (Suc (Suc k)))) shape_draw (snd wrapper_and_its_copy) 4
     = Some (Inr (Circle_draw (Circle 10))) \<and>
   (case copy_moved_back of
      Inl e \<Rightarrow> False
    | Inr m \<Rightarrow>
        cells m 4 = Some (DrawableObj None) \<and>
        cells m 2 = Some (DrawableObj (Some 3)) \<and>
        cells m 3 = Some (Model_reference 2) \<and>
        cells m 1 = None \<and>
        Drawable_draw k shape_draw m 2 = None)"
proof -
  note unfolds = wrapper_and_its_copy_def Drawable_ctor_def allocate_def empty_memory_def Let_def
  have before: "fst wrapper_and_its_copy = (0, 2, 4)"
    by (simp add: unfolds eval_nat_numeral)
  have draws: "Drawable_draw (Suc (Suc (Suc (Suc k)))) shape_draw (snd wrapper_and_its_copy) 4
      = Some (Inr (Circle_draw (Circle 10)))"
    by (simp add: unfolds eval_nat_numeral)
  have "\<exists>m. copy_moved_back = Inr m \<and>
      cells m 4 = Some (DrawableObj None) \<and>
      cells m 2 = Some (DrawableObj (Some 3)) \<and>
      cells m 3 = Some (Model_reference 2) \<and>
      cells m 1 = None"
    by (simp add: copy_moved_back_def unfolds Drawable_move_assign_def delete_def eval_nat_numeral)
  then obtain m where run: "copy_moved_back = Inr m"
    and b: "cells m 4 = Some (DrawableObj None)"
    and a: "cells m 2 = Some (DrawableObj (Some 3))"
    and model: "cells m 3 = Some (Model_reference 2)"
    and gone: "cells m 1 = None"
    by blast
  have never: "Drawable_draw k shape_draw m 2 = None"
    using draw_on_self_reference[OF a model] by simp
  have after: "case copy_moved_back of
      Inl e \<Rightarrow> False
    | Inr m \<Rightarrow>
        cells m 4 = Some (DrawableObj None) \<and>
        cells m 2 = Some (DrawableObj (Some 3)) \<and>
        cells m 3 = Some (Model_reference 2) \<and>
        cells m 1 = None \<and>
        Drawable_draw k shape_draw m 2 = None"
    unfolding run using b a model gone never by simp
  from before draws after show ?thesis by (intro conjI)
qed

text \<open>
  C6, as stated: a capability invoked on an empty instance has no defined result, and
  nothing guards the call. \<^verbatim>\<open>ModernTypeEraser::print\<close> and \<^verbatim>\<open>calculate\<close> test the function
  member: on a default-constructed instance \<^verbatim>\<open>print\<close> writes nothing and \<^verbatim>\<open>calculate(7)\<close>
  returns 0.
\<close>

theorem C6_empty_eraser_has_fallback:
  "ModernTypeEraser_calculate (ModernTypeEraser_default :: Calculator ModernTypeEraser) 7 = Inr 0 \<and>
   ModernTypeEraser_print (ModernTypeEraser_default :: Calculator ModernTypeEraser) = []"
  by (simp add: ModernTypeEraser_calculate_def ModernTypeEraser_print_def
      ModernTypeEraser_default_def)

text \<open>
  C6, amended. \<^verbatim>\<open>Drawable::draw\<close> on an instance whose \<^verbatim>\<open>pImpl\<close> is null (a moved-from one)
  is not guarded: it dereferences the null pointer, which is undefined behaviour.
  \<^verbatim>\<open>ModernTypeEraser\<close> and \<^verbatim>\<open>FunctionTypeEraser\<close> guard every call with a test of the function
  member it uses: when that member is empty, \<^verbatim>\<open>print\<close> writes nothing, \<^verbatim>\<open>calculate\<close> returns
  0 and \<^verbatim>\<open>FunctionTypeEraser::getTypeName\<close> returns \<^verbatim>\<open>"Unknown"\<close>. The members of a
  default-constructed \<^verbatim>\<open>ModernTypeEraser\<close> are empty.
\<close>

theorem C6_guarded_and_unguarded:
  "(cells m this = Some (DrawableObj None)
      \<longrightarrow> Drawable_draw (Suc k) T_draw m this = Some (Inl NullDeref)) \<and>
   (printFunc e = None \<longrightarrow> ModernTypeEraser_print e = []) \<and>
   (calculateFunc e = None \<longrightarrow> ModernTypeEraser_calculate e x = Inr 0) \<and>
   printFunc ModernTypeEraser_default = None \<and>
   calculateFunc ModernTypeEraser_default = None \<and>
   (fn_printFunc f = None \<longrightarrow> FunctionTypeEraser_print f = []) \<and>
   (fn_calculateFunc f = None \<longrightarrow> FunctionTypeEraser_calculate f x = Inr 0) \<and>
   (fn_typeFunc f = None \<longrightarrow> FunctionTypeEraser_getTypeName f = ''Unknown'')"
  by (simp add: ModernTypeEraser_print_def ModernTypeEraser_calculate_def
      ModernTypeEraser_default_def FunctionTypeEraser_print_def
      FunctionTypeEraser_calculate_def FunctionTypeEraser_getTypeName_def)

text \<open>
  The theorem at \<^verbatim>\<open>Circle c(10.0); Drawable original(c); Drawable moved = std::move(original);\<close>,
  where \<^verbatim>\<open>original\<close> lies at address 2; at a default-constructed \<^verbatim>\<open>ModernTypeEraser\<close>; and
  at a \<^verbatim>\<open>FunctionTypeEraser(Adder(15))\<close> that has been moved from with the move of libstdc++.
\<close>

theorem C6_guarded_and_unguarded_witness:
  "(\<exists>this m'. Drawable_move_ctor 2
        (snd (Drawable_ctor 0 (snd (allocate (Object (A_Circle (Circle 10))) empty_memory))))
       = Inr (this, m') \<and>
     cells m' 2 = Some (DrawableObj None) \<and>
     Drawable_draw 1 shape_draw m' 2 = Some (Inl NullDeref)) \<and>
   printFunc (ModernTypeEraser_default :: Calculator ModernTypeEraser) = None \<and>
   ModernTypeEraser_print (ModernTypeEraser_default :: Calculator ModernTypeEraser) = [] \<and>
   calculateFunc (ModernTypeEraser_default :: Calculator ModernTypeEraser) = None \<and>
   ModernTypeEraser_calculate (ModernTypeEraser_default :: Calculator ModernTypeEraser) 7 = Inr 0 \<and>
   fn_printFunc (snd (FunctionTypeEraser_move_ctor libstdcxx
       (FunctionTypeEraser_ctor Adder_ops (Adder 15)))) = None \<and>
   FunctionTypeEraser_print (snd (FunctionTypeEraser_move_ctor libstdcxx
       (FunctionTypeEraser_ctor Adder_ops (Adder 15)))) = [] \<and>
   fn_calculateFunc (snd (FunctionTypeEraser_move_ctor libstdcxx
       (FunctionTypeEraser_ctor Adder_ops (Adder 15)))) = None \<and>
   FunctionTypeEraser_calculate (snd (FunctionTypeEraser_move_ctor libstdcxx
       (FunctionTypeEraser_ctor Adder_ops (Adder 15)))) 5 = Inr 0 \<and>
   fn_typeFunc (snd (FunctionTypeEraser_move_ctor libstdcxx
       (FunctionTypeEraser_ctor Adder_ops (Adder 15)))) = None \<and>
   FunctionTypeEraser_getTypeName (snd (FunctionTypeEraser_move_ctor libstdcxx
       (FunctionTypeEraser_ctor Adder_ops (Adder 15)))) = ''Unknown''"
proof -
  define m0 :: "shape memory" where
    "m0 = snd (Drawable_ctor 0 (snd (allocate (Object (A_Circle (Circle 10))) empty_memory)))"
  define m1 where "m1 = snd (allocate (DrawableObj (Some 1))
      (m0\<lparr>cells := (cells m0)(2 := Some (DrawableObj None))\<rparr>))"
  define e0 :: "Calculator ModernTypeEraser" where "e0 = ModernTypeEraser_default"
  define f0 where "f0 = snd (FunctionTypeEraser_move_ctor libstdcxx
       (FunctionTypeEraser_ctor Adder_ops (Adder 15)))"
  have run: "Drawable_move_ctor 2 m0 = Inr (3, m1)"
    by (simp add: m1_def m0_def Drawable_move_ctor_def Drawable_ctor_def allocate_def
        empty_memory_def Let_def eval_nat_numeral)
  have null: "cells m1 2 = Some (DrawableObj None)"
    by (simp add: m1_def m0_def Drawable_ctor_def allocate_def empty_memory_def Let_def
        eval_nat_numeral)
  have empty_e: "printFunc e0 = None" "calculateFunc e0 = None"
    by (simp_all add: e0_def ModernTypeEraser_default_def)
  have empty_f: "fn_printFunc f0 = None" "fn_calculateFunc f0 = None" "fn_typeFunc f0 = None"
    by (simp_all add: f0_def FunctionTypeEraser_move_ctor_def libstdcxx_def)
  note inst = C6_guarded_and_unguarded[of m1 2 0 shape_draw e0 7 f0]
  from inst null have drawn: "Drawable_draw 1 shape_draw m1 2 = Some (Inl NullDeref)"
    by simp
  from inst empty_e have modern: "ModernTypeEraser_print e0 = []"
      "ModernTypeEraser_calculate e0 7 = Inr 0"
    by blast+
  from C6_guarded_and_unguarded[of m1 2 0 shape_draw e0 5 f0] empty_f
  have erased: "FunctionTypeEraser_print f0 = []"
      "FunctionTypeEraser_calculate f0 5 = Inr 0"
      "FunctionTypeEraser_getTypeName f0 = ''Unknown''"
    by blast+
  from run null drawn have "\<exists>this m'. Drawable_move_ctor 2 m0 = Inr (this, m') \<and>
     cells m' 2 = Some (DrawableObj None) \<and>
     Drawable_draw 1 shape_draw m' 2 = Some (Inl NullDeref)"
    by blast
  then show ?thesis
    using empty_e modern empty_f erased
    unfolding m0_def[symmetric] e0_def[symmetric] f0_def[symmetric] by simp
qed


text \<open>
  C8. No call of an exposed operation changes which closures an erased value is bound
  to. \<^verbatim>\<open>Drawable::draw\<close> is \<^verbatim>\<open>const\<close> and calls \<^verbatim>\<open>const\<close> members only: \<open>Drawable_draw\<close>
  reads the memory and returns what is written, so \<^verbatim>\<open>pImpl\<close> and the model it points to
  are as before. Of \<^verbatim>\<open>ModernTypeEraser\<close>, \<^verbatim>\<open>print\<close>, \<^verbatim>\<open>calculate\<close>, \<^verbatim>\<open>getTypeName\<close> and
  \<^verbatim>\<open>isValid\<close> are \<^verbatim>\<open>const\<close> and call closures that are not \<^verbatim>\<open>mutable\<close>; they return no new
  state either. \<^verbatim>\<open>clone\<close> is the one operation that writes, to the object captured by
  \<^verbatim>\<open>cloneFunc_\<close>. After one call of \<^verbatim>\<open>clone\<close>, and
  after any number \<open>j\<close> of them, the eraser is bound to the same closures; an eraser
  constructed for \<open>T\<close> stays bound to the three closures of \<open>T\<close>; and \<^verbatim>\<open>print\<close>,
  \<^verbatim>\<open>calculate\<close> and \<^verbatim>\<open>getTypeName\<close> give what they gave before.
\<close>

theorem C8_bound_closures_fixed:
  "bound_closures (snd (ModernTypeEraser_clone e)) = bound_closures e \<and>
   bound_closures (((\<lambda>e. snd (ModernTypeEraser_clone e)) ^^ j) e) = bound_closures e \<and>
   bound_closures (((\<lambda>e. snd (ModernTypeEraser_clone e)) ^^ j) (ModernTypeEraser_ctor T v))
     = (Some T, Some T, Some T) \<and>
   ModernTypeEraser_print (((\<lambda>e. snd (ModernTypeEraser_clone e)) ^^ j) e)
     = ModernTypeEraser_print e \<and>
   ModernTypeEraser_calculate (((\<lambda>e. snd (ModernTypeEraser_clone e)) ^^ j) e) x
     = ModernTypeEraser_calculate e x \<and>
   ModernTypeEraser_getTypeName (((\<lambda>e. snd (ModernTypeEraser_clone e)) ^^ j) e)
     = ModernTypeEraser_getTypeName e"
  by (simp add: bound_closures_def clone_keeps clones_keep ModernTypeEraser_print_def
      ModernTypeEraser_calculate_def ModernTypeEraser_getTypeName_def)
    (simp add: ModernTypeEraser_ctor_def Let_def)

text \<open>
  C10. For an eraser constructed from a value of type \<open>T\<close>, \<^verbatim>\<open>get<T'>\<close> returns the address
  of the stored value when \<open>T' = T\<close> and the null pointer otherwise; that address holds
  the value; on a default-constructed eraser \<^verbatim>\<open>get\<close> returns the null pointer. This holds
  for \<^verbatim>\<open>BadTypeEraser\<close> and for \<^verbatim>\<open>AnyTypeEraser\<close>, and \<^verbatim>\<open>AnyTypeEraser::hasValue\<close> is true on
  the former and false on the latter. \<^verbatim>\<open>get\<close> and \<^verbatim>\<open>hasValue\<close> read the eraser only: they
  take no memory and return none.
\<close>

theorem C10_get_matches_stored_type:
  "BadTypeEraser_get T' (fst (BadTypeEraser_ctor T v m))
     = (if T' = T then Some (next_free m) else None) \<and>
   cells (snd (BadTypeEraser_ctor T v m)) (next_free m) = Some (Object v) \<and>
   BadTypeEraser_get T' BadTypeEraser_default = None \<and>
   AnyTypeEraser_get T' (fst (AnyTypeEraser_ctor T v m))
     = (if T' = T then Some (next_free m) else None) \<and>
   cells (snd (AnyTypeEraser_ctor T v m)) (next_free m) = Some (Object v) \<and>
   AnyTypeEraser_get T' AnyTypeEraser_default = None \<and>
   AnyTypeEraser_hasValue (fst (AnyTypeEraser_ctor T v m)) \<and>
   \<not> AnyTypeEraser_hasValue AnyTypeEraser_default"
  by (simp add: BadTypeEraser_get_def BadTypeEraser_ctor_def BadTypeEraser_default_def
      AnyTypeEraser_get_def AnyTypeEraser_ctor_def AnyTypeEraser_default_def
      AnyTypeEraser_hasValue_def any_cast_def any_has_value_def allocate_def)

end
